theory Spec2Isabelle
  imports Main
begin

section \<open>Re-signing an Android package: \<^verbatim>\<open>tools/apk_utils.py\<close>\<close>

text \<open>
  The module holds one function, \<^verbatim>\<open>sign(unsigned_apk, signed_apk, keystore)\<close>. It prints a
  banner, runs \<^verbatim>\<open>zip -d\<close> through \<^verbatim>\<open>subprocess.call\<close> (exit status dropped) and then
  \<^verbatim>\<open>jarsigner\<close> through \<^verbatim>\<open>subprocess.check_call\<close> (non-zero exit status raised as
  \<^verbatim>\<open>CalledProcessError\<close>). Everything the function does is an effect, so the embedding
  threads a state through it: the chronological list of observable events and the
  outside world (file system, installed tools) on which the external tools act.
\<close>

subsection \<open>Errors, events and state\<close>

text \<open>
  The exceptions that can leave \<^verbatim>\<open>sign\<close>: \<^verbatim>\<open>OSError(errno)\<close>, which
  \<^verbatim>\<open>subprocess.Popen\<close> raises when the operating system cannot execute the program (not
  installed, not executable, argument list too long); \<^verbatim>\<open>TypeError\<close>, which Python 2 raises
  from \<^verbatim>\<open>os.execvp\<close> inside \<^verbatim>\<open>Popen\<close> when an argument holds a NUL character (Python 3
  raises \<^verbatim>\<open>ValueError\<close> at the same place); and \<^verbatim>\<open>CalledProcessError(returncode, cmd)\<close>,
  which \<^verbatim>\<open>check_call\<close> raises on a non-zero exit status.
\<close>

datatype error =
    OSError nat
  | TypeError
  | CalledProcessError int "string list"

text \<open>
  Why a child process could not be started, and the exception \<^verbatim>\<open>Popen\<close> raises for it.
\<close>

datatype launch_failure =
    Cannot_execute nat
  | Nul_in_argument

fun Popen_raises :: "launch_failure \<Rightarrow> error" where
  "Popen_raises (Cannot_execute errno) = OSError errno"
| "Popen_raises Nul_in_argument = TypeError"

text \<open>
  Observable events, in the order they happen: a line written by the \<^verbatim>\<open>print\<close> statement,
  the diagnostic text written by \<^verbatim>\<open>utils.PrintCmd\<close> for an argument vector, the attempt to
  start a child process with an argument vector, and the child's exit with its status
  (negative when a signal killed it, as \<^verbatim>\<open>Popen.wait\<close> reports it).
\<close>

datatype event =
    Stdout string
  | Diagnostic "string list"
  | Popen "string list"
  | Exited "string list" int

record 'w state =
  trace :: "event list"
  world :: 'w

text \<open>
  What lies below \<^verbatim>\<open>subprocess.Popen\<close> (the conversion of the arguments for \<^verbatim>\<open>execvp\<close>
  and the operating system) is a parameter: given an argument vector and the world it
  answers either \<open>Inl failure\<close> (the program could not be started, and why) or
  \<open>Inr status\<close> (it ran and exited with that status), together with the world the attempt
  leaves behind. Nothing is assumed about it, so whatever the tools do to the files (strip
  the archive, write the output in full or in part) is covered, and so is every way in
  which an argument can keep a program from starting.
\<close>

type_synonym 'w exec = "string list \<Rightarrow> 'w \<Rightarrow> (launch_failure + int) \<times> 'w"

subsection \<open>The library calls\<close>

text \<open>The Python 2 statement \<^verbatim>\<open>print s\<close>.\<close>

definition print_stmt :: "string \<Rightarrow> 'w state \<Rightarrow> 'w state" where
  "print_stmt s st = st\<lparr>trace := trace st @ [Stdout s]\<rparr>"

text \<open>
  Modelled from the spec: \<^verbatim>\<open>utils.PrintCmd\<close> lives in \<^verbatim>\<open>tools/utils.py\<close>, which is not among
  the sources at hand. The specification says of it that ``diagnostic text describing each
  invocation is emitted before it runs'': the call emits the text describing the argument
  vector it is given, touches nothing else and returns.
\<close>

definition PrintCmd :: "string list \<Rightarrow> 'w state \<Rightarrow> 'w state" where
  "PrintCmd cmd st = st\<lparr>trace := trace st @ [Diagnostic cmd]\<rparr>"

text \<open>
  \<^verbatim>\<open>subprocess.call(cmd)\<close> is \<^verbatim>\<open>Popen(cmd).wait()\<close>: it starts the child, waits for it and
  returns the exit status; when the child cannot be started the exception of \<^verbatim>\<open>Popen\<close>
  (\<^verbatim>\<open>OSError\<close> or \<^verbatim>\<open>TypeError\<close>) propagates.
\<close>

definition call :: "'w exec \<Rightarrow> string list \<Rightarrow> 'w state \<Rightarrow> (error + int) \<times> 'w state" where
  "call run cmd st =
     (case run cmd (world st) of
        (Inl failure, w) \<Rightarrow>
          (Inl (Popen_raises failure), st\<lparr>trace := trace st @ [Popen cmd], world := w\<rparr>)
      | (Inr retcode, w) \<Rightarrow>
          (Inr retcode, st\<lparr>trace := trace st @ [Popen cmd, Exited cmd retcode], world := w\<rparr>))"

text \<open>
  \<^verbatim>\<open>subprocess.check_call(cmd)\<close>:
  \<^verbatim>\<open>retcode = call(cmd); if retcode: raise CalledProcessError(retcode, cmd); return 0\<close>.
\<close>

definition check_call :: "'w exec \<Rightarrow> string list \<Rightarrow> 'w state \<Rightarrow> (error + int) \<times> 'w state" where
  "check_call run cmd st =
     (case call run cmd st of
        (Inl e, st') \<Rightarrow> (Inl e, st')
      | (Inr retcode, st') \<Rightarrow>
          if retcode \<noteq> 0 then (Inl (CalledProcessError retcode cmd), st')
          else (Inr 0, st'))"

subsection \<open>\<^verbatim>\<open>sign\<close>\<close>

text \<open>
  The function body, statement by statement. The value of \<^verbatim>\<open>subprocess.call\<close> is dropped;
  an exception of either call ends the function; falling off the end returns \<^verbatim>\<open>None\<close>.
\<close>

definition sign :: "'w exec \<Rightarrow> string \<Rightarrow> string \<Rightarrow> string \<Rightarrow> 'w state \<Rightarrow> (error + unit) \<times> 'w state" where
  "sign run unsigned_apk signed_apk keystore st0 =
     (let st1 = print_stmt ''Signing (ignore the warnings)'' st0;
          cmd = [''zip'', ''-d'', unsigned_apk, ''META-INF/*''];
          st2 = PrintCmd cmd st1
      in case call run cmd st2 of
           (Inl e, st3) \<Rightarrow> (Inl e, st3)
         | (Inr _, st3) \<Rightarrow>
             (let cmd = [
                    ''jarsigner'',
                    ''-sigalg'', ''SHA1withRSA'',
                    ''-digestalg'', ''SHA1'',
                    ''-keystore'', keystore,
                    ''-storepass'', ''android'',
                    ''-signedjar'', signed_apk,
                    unsigned_apk,
                    ''androiddebugkey''
                  ];
                  st4 = PrintCmd cmd st3
              in case check_call run cmd st4 of
                   (Inl e, st5) \<Rightarrow> (Inl e, st5)
                 | (Inr _, st5) \<Rightarrow> (Inr (), st5)))"

subsection \<open>Observing a run\<close>

text \<open>The events a run added to the trace: those after the ones the start state held.\<close>

definition emitted :: "'w state \<Rightarrow> (error + unit) \<times> 'w state \<Rightarrow> event list" where
  "emitted st0 res = drop (length (trace st0)) (trace (snd res))"

text \<open>The argument vectors of the child processes a run tried to start, in order.\<close>

fun invocations :: "event list \<Rightarrow> string list list" where
  "invocations [] = []"
| "invocations (Popen argv # es) = argv # invocations es"
| "invocations (Stdout _ # es) = invocations es"
| "invocations (Diagnostic _ # es) = invocations es"
| "invocations (Exited _ _ # es) = invocations es"

text \<open>
  Shorthand for the two argument vectors \<^verbatim>\<open>sign\<close> builds and for its banner line; these
  are abbreviations, so every statement below is about the lists themselves.
\<close>

abbreviation zip_cmd :: "string \<Rightarrow> string list" where
  "zip_cmd u \<equiv> [''zip'', ''-d'', u, ''META-INF/*'']"

abbreviation jarsigner_cmd :: "string \<Rightarrow> string \<Rightarrow> string \<Rightarrow> string list" where
  "jarsigner_cmd u s k \<equiv>
     [''jarsigner'', ''-sigalg'', ''SHA1withRSA'', ''-digestalg'', ''SHA1'',
      ''-keystore'', k, ''-storepass'', ''android'', ''-signedjar'', s, u,
      ''androiddebugkey'']"

abbreviation banner :: event where
  "banner \<equiv> Stdout ''Signing (ignore the warnings)''"

subsection \<open>Sample environments\<close>

text \<open>
  Closed instances of the theorems need a concrete operating system. The sample world maps
  the path of an archive to the names of its entries. In it \<^verbatim>\<open>zip -d\<close> removes the entries
  under \<^verbatim>\<open>META-INF/\<close> and exits with 0, or with 12 (``nothing to do'') when there is none;
  \<^verbatim>\<open>jarsigner\<close> exits with a status fixed in advance, writing the signed archive when that
  status is 0 and an empty, partial output file otherwise; no other program is installed
  (errno 2, \<^verbatim>\<open>ENOENT\<close>).
\<close>

type_synonym archives = "string \<rightharpoonup> string list"

definition under_meta_inf :: "string \<Rightarrow> bool" where
  "under_meta_inf name = (take 9 name = ''META-INF/'')"

definition sample_zip ::
  "string list \<Rightarrow> archives \<Rightarrow> (launch_failure + int) \<times> archives" where
  "sample_zip args fs =
     (case args of
        [d, apk, pattern] \<Rightarrow>
          (case fs apk of
             None \<Rightarrow> (Inr 12, fs)
           | Some names \<Rightarrow>
               if list_ex under_meta_inf names
               then (Inr 0, fs(apk \<mapsto> filter (\<lambda>n. \<not> under_meta_inf n) names))
               else (Inr 12, fs))
      | _ \<Rightarrow> (Inr 16, fs))"

definition sample_jarsigner ::
  "int \<Rightarrow> string list \<Rightarrow> archives \<Rightarrow> (launch_failure + int) \<times> archives" where
  "sample_jarsigner status args fs =
     (if length args = 12 then
        (if status = 0
         then (Inr 0, fs(args ! 9 \<mapsto>
                 ''META-INF/CERT.RSA'' # (case fs (args ! 10) of None \<Rightarrow> [] | Some names \<Rightarrow> names)))
         else (Inr status, fs(args ! 9 \<mapsto> [])))
      else (Inr 1, fs))"

definition sample_tools :: "int \<Rightarrow> archives exec" where
  "sample_tools status argv fs =
     (case argv of
        [] \<Rightarrow> (Inl (Cannot_execute 2), fs)
      | prog # args \<Rightarrow>
          if prog = ''zip'' then sample_zip args fs
          else if prog = ''jarsigner'' then sample_jarsigner status args fs
          else (Inl (Cannot_execute 2), fs))"

text \<open>The same machine with \<^verbatim>\<open>zip\<close> not installed.\<close>

definition zip_missing :: "archives exec" where
  "zip_missing argv fs =
     (case argv of
        [] \<Rightarrow> (Inl (Cannot_execute 2), fs)
      | prog # args \<Rightarrow> if prog = ''zip'' then (Inl (Cannot_execute 2), fs) else sample_tools 0 argv fs)"

text \<open>
  The sample machine with the argument check of Python 2's \<^verbatim>\<open>os.execvp\<close> in front: an
  argument vector in which some argument holds a NUL character starts nothing.
\<close>

definition strict_tools :: "int \<Rightarrow> archives exec" where
  "strict_tools status argv fs =
     (if list_ex (\<lambda>arg. CHR 0x00 \<in> set arg) argv then (Inl Nul_in_argument, fs)
      else sample_tools status argv fs)"

text \<open>Two start states: an unsigned archive that carries a manifest, and one that does not.\<close>

definition with_manifest :: "archives state" where
  "with_manifest =
     \<lparr>trace = [],
      world = [''app-unsigned.apk'' \<mapsto> [''META-INF/MANIFEST.MF'', ''classes.dex'']]\<rparr>"

definition without_manifest :: "archives state" where
  "without_manifest =
     \<lparr>trace = [], world = [''app-unsigned.apk'' \<mapsto> [''classes.dex'']]\<rparr>"

subsection \<open>The library calls, case by case\<close>

lemma call_not_started:
  fixes st :: "'w state"
  shows "run cmd (world st) = (Inl failure, w) \<Longrightarrow>
   call run cmd st = (Inl (Popen_raises failure), \<lparr>trace = trace st @ [Popen cmd], world = w\<rparr>)"
  by (simp add: call_def)

lemma call_exited:
  fixes st :: "'w state"
  shows "run cmd (world st) = (Inr rc, w) \<Longrightarrow>
   call run cmd st =
     (Inr rc, \<lparr>trace = trace st @ [Popen cmd, Exited cmd rc], world = w\<rparr>)"
  by (simp add: call_def)

lemma check_call_not_started:
  fixes st :: "'w state"
  shows "run cmd (world st) = (Inl failure, w) \<Longrightarrow>
   check_call run cmd st =
     (Inl (Popen_raises failure), \<lparr>trace = trace st @ [Popen cmd], world = w\<rparr>)"
  by (simp add: check_call_def call_not_started)

lemma check_call_nonzero:
  fixes st :: "'w state"
  shows "run cmd (world st) = (Inr rc, w) \<Longrightarrow> rc \<noteq> 0 \<Longrightarrow>
   check_call run cmd st =
     (Inl (CalledProcessError rc cmd),
      \<lparr>trace = trace st @ [Popen cmd, Exited cmd rc], world = w\<rparr>)"
  by (simp add: check_call_def call_exited)

lemma check_call_zero:
  fixes st :: "'w state"
  shows "run cmd (world st) = (Inr 0, w) \<Longrightarrow>
   check_call run cmd st =
     (Inr 0, \<lparr>trace = trace st @ [Popen cmd, Exited cmd 0], world = w\<rparr>)"
  by (simp add: check_call_def call_exited)

lemma announce:
  fixes st :: "'w state"
  shows "PrintCmd cmd st = \<lparr>trace = trace st @ [Diagnostic cmd], world = world st\<rparr>"
  by (simp add: PrintCmd_def)

lemma announce_first:
  fixes st :: "'w state"
  shows "PrintCmd cmd (print_stmt line st) =
     \<lparr>trace = trace st @ [Stdout line, Diagnostic cmd], world = world st\<rparr>"
  by (simp add: PrintCmd_def print_stmt_def)

lemma sign_zip_not_started:
  fixes st :: "'w state"
  assumes "run (zip_cmd u) (world st) = (Inl failure, w1)"
  shows "sign run u s k st =
     (Inl (Popen_raises failure),
      \<lparr>trace = trace st @ [banner, Diagnostic (zip_cmd u), Popen (zip_cmd u)], world = w1\<rparr>)"
proof -
  define st2 where "st2 = PrintCmd (zip_cmd u) (print_stmt ''Signing (ignore the warnings)'' st)"
  have st2: "st2 = \<lparr>trace = trace st @ [banner, Diagnostic (zip_cmd u)], world = world st\<rparr>"
    unfolding st2_def by (rule announce_first)
  have "run (zip_cmd u) (world st2) = (Inl failure, w1)"
    using assms by (simp add: st2)
  then have "call run (zip_cmd u) st2 =
      (Inl (Popen_raises failure), \<lparr>trace = trace st2 @ [Popen (zip_cmd u)], world = w1\<rparr>)"
    by (rule call_not_started)
  then have c: "call run (zip_cmd u) st2 =
      (Inl (Popen_raises failure),
       \<lparr>trace = trace st @ [banner, Diagnostic (zip_cmd u), Popen (zip_cmd u)], world = w1\<rparr>)"
    by (simp add: st2)
  show ?thesis
    unfolding sign_def Let_def st2_def[symmetric] c by simp
qed

lemma sign_zip_exited:
  fixes st :: "'w state"
  assumes "run (zip_cmd u) (world st) = (Inr rc1, w1)"
  shows "sign run u s k st =
     (case check_call run (jarsigner_cmd u s k)
             \<lparr>trace = trace st @ [banner, Diagnostic (zip_cmd u), Popen (zip_cmd u),
                                  Exited (zip_cmd u) rc1, Diagnostic (jarsigner_cmd u s k)],
              world = w1\<rparr> of
        (Inl e, st5) \<Rightarrow> (Inl e, st5)
      | (Inr _, st5) \<Rightarrow> (Inr (), st5))"
proof -
  define st2 where "st2 = PrintCmd (zip_cmd u) (print_stmt ''Signing (ignore the warnings)'' st)"
  define st3 :: "'w state" where "st3 = \<lparr>trace = trace st @ [banner, Diagnostic (zip_cmd u), Popen (zip_cmd u),
                                  Exited (zip_cmd u) rc1], world = w1\<rparr>"
  have st2: "st2 = \<lparr>trace = trace st @ [banner, Diagnostic (zip_cmd u)], world = world st\<rparr>"
    unfolding st2_def by (rule announce_first)
  have "run (zip_cmd u) (world st2) = (Inr rc1, w1)"
    using assms by (simp add: st2)
  then have "call run (zip_cmd u) st2 =
      (Inr rc1, \<lparr>trace = trace st2 @ [Popen (zip_cmd u), Exited (zip_cmd u) rc1], world = w1\<rparr>)"
    by (rule call_exited)
  then have c: "call run (zip_cmd u) st2 = (Inr rc1, st3)"
    by (simp add: st2 st3_def)
  have p: "PrintCmd (jarsigner_cmd u s k) st3 =
      \<lparr>trace = trace st @ [banner, Diagnostic (zip_cmd u), Popen (zip_cmd u),
                           Exited (zip_cmd u) rc1, Diagnostic (jarsigner_cmd u s k)],
       world = w1\<rparr>"
    by (simp add: announce st3_def)
  show ?thesis
    unfolding sign_def Let_def st2_def[symmetric] c prod.case sum.case p ..
qed

lemma sign_jarsigner_not_started:
  fixes st :: "'w state"
  assumes "run (zip_cmd u) (world st) = (Inr rc1, w1)"
    and "run (jarsigner_cmd u s k) w1 = (Inl failure, w2)"
  shows "sign run u s k st =
     (Inl (Popen_raises failure),
      \<lparr>trace = trace st @ [banner, Diagnostic (zip_cmd u), Popen (zip_cmd u),
                           Exited (zip_cmd u) rc1, Diagnostic (jarsigner_cmd u s k),
                           Popen (jarsigner_cmd u s k)],
       world = w2\<rparr>)"
  by (simp add: sign_zip_exited [where run = run and st = st, OF assms(1)]
        check_call_not_started [where run = run and w = w2] assms(2))

lemma sign_jarsigner_nonzero:
  fixes st :: "'w state"
  assumes "run (zip_cmd u) (world st) = (Inr rc1, w1)"
    and "run (jarsigner_cmd u s k) w1 = (Inr rc2, w2)" and "rc2 \<noteq> 0"
  shows "sign run u s k st =
     (Inl (CalledProcessError rc2 (jarsigner_cmd u s k)),
      \<lparr>trace = trace st @ [banner, Diagnostic (zip_cmd u), Popen (zip_cmd u),
                           Exited (zip_cmd u) rc1, Diagnostic (jarsigner_cmd u s k),
                           Popen (jarsigner_cmd u s k), Exited (jarsigner_cmd u s k) rc2],
       world = w2\<rparr>)"
  by (simp add: sign_zip_exited [where run = run and st = st, OF assms(1)]
        check_call_nonzero [where run = run and w = w2] assms(2,3))

lemma sign_jarsigner_zero:
  fixes st :: "'w state"
  assumes "run (zip_cmd u) (world st) = (Inr rc1, w1)"
    and "run (jarsigner_cmd u s k) w1 = (Inr 0, w2)"
  shows "sign run u s k st =
     (Inr (),
      \<lparr>trace = trace st @ [banner, Diagnostic (zip_cmd u), Popen (zip_cmd u),
                           Exited (zip_cmd u) rc1, Diagnostic (jarsigner_cmd u s k),
                           Popen (jarsigner_cmd u s k), Exited (jarsigner_cmd u s k) 0],
       world = w2\<rparr>)"
  by (simp add: sign_zip_exited [where run = run and st = st, OF assms(1)]
        check_call_zero [where run = run and w = w2] assms(2))

text \<open>
  Every run of \<^verbatim>\<open>sign\<close> is one of four: \<^verbatim>\<open>zip\<close> could not be started; \<^verbatim>\<open>zip\<close> exited and
  \<^verbatim>\<open>jarsigner\<close> could not be started; \<^verbatim>\<open>jarsigner\<close> exited with a non-zero status; it exited
  with 0. Each case fixes the value and the final state.
\<close>

lemma sign_cases [case_names zip_not_started jarsigner_not_started jarsigner_nonzero jarsigner_zero]:
  fixes st :: "'w state"
  obtains
    failure w1 where
      "run (zip_cmd u) (world st) = (Inl failure, w1)"
      "sign run u s k st =
         (Inl (Popen_raises failure),
          \<lparr>trace = trace st @ [banner, Diagnostic (zip_cmd u), Popen (zip_cmd u)],
           world = w1\<rparr>)"
  | rc1 w1 failure w2 where
      "run (zip_cmd u) (world st) = (Inr rc1, w1)"
      "run (jarsigner_cmd u s k) w1 = (Inl failure, w2)"
      "sign run u s k st =
         (Inl (Popen_raises failure),
          \<lparr>trace = trace st @ [banner, Diagnostic (zip_cmd u), Popen (zip_cmd u),
                               Exited (zip_cmd u) rc1, Diagnostic (jarsigner_cmd u s k),
                               Popen (jarsigner_cmd u s k)],
           world = w2\<rparr>)"
  | rc1 w1 rc2 w2 where
      "run (zip_cmd u) (world st) = (Inr rc1, w1)"
      "run (jarsigner_cmd u s k) w1 = (Inr rc2, w2)" "rc2 \<noteq> 0"
      "sign run u s k st =
         (Inl (CalledProcessError rc2 (jarsigner_cmd u s k)),
          \<lparr>trace = trace st @ [banner, Diagnostic (zip_cmd u), Popen (zip_cmd u),
                               Exited (zip_cmd u) rc1, Diagnostic (jarsigner_cmd u s k),
                               Popen (jarsigner_cmd u s k), Exited (jarsigner_cmd u s k) rc2],
           world = w2\<rparr>)"
  | rc1 w1 w2 where
      "run (zip_cmd u) (world st) = (Inr rc1, w1)"
      "run (jarsigner_cmd u s k) w1 = (Inr 0, w2)"
      "sign run u s k st =
         (Inr (),
          \<lparr>trace = trace st @ [banner, Diagnostic (zip_cmd u), Popen (zip_cmd u),
                               Exited (zip_cmd u) rc1, Diagnostic (jarsigner_cmd u s k),
                               Popen (jarsigner_cmd u s k), Exited (jarsigner_cmd u s k) 0],
           world = w2\<rparr>)"
proof (cases "run (zip_cmd u) (world st)")
  case (Pair r1 w1)
  show ?thesis
  proof (cases r1)
    case (Inl failure)
    with Pair have z: "run (zip_cmd u) (world st) = (Inl failure, w1)" by simp
    from z sign_zip_not_started [where run = run and st = st, OF z] show ?thesis
      by (rule that(1))
  next
    case (Inr rc1)
    with Pair have z: "run (zip_cmd u) (world st) = (Inr rc1, w1)" by simp
    show ?thesis
    proof (cases "run (jarsigner_cmd u s k) w1")
      case inner: (Pair r2 w2)
      show ?thesis
      proof (cases r2)
        case (Inl failure)
        with inner have j: "run (jarsigner_cmd u s k) w1 = (Inl failure, w2)" by simp
        from z j sign_jarsigner_not_started [where run = run and st = st, OF z j]
        show ?thesis by (rule that(2))
      next
        case (Inr rc2)
        with inner have j: "run (jarsigner_cmd u s k) w1 = (Inr rc2, w2)" by simp
        show ?thesis
        proof (cases "rc2 = 0")
          case True
          with j have j0: "run (jarsigner_cmd u s k) w1 = (Inr 0, w2)" by simp
          from z j0 sign_jarsigner_zero [where run = run and st = st, OF z j0]
          show ?thesis by (rule that(4))
        next
          case False
          from z j False sign_jarsigner_nonzero [where run = run and st = st, OF z j False]
          show ?thesis by (rule that(3))
        qed
      qed
    qed
  qed
qed

subsection \<open>Runs in the sample environments\<close>

lemma zip_strips_manifest:
  "sample_tools status (zip_cmd ''app-unsigned.apk'') (world with_manifest) =
     (Inr 0, [''app-unsigned.apk'' \<mapsto> [''classes.dex'']])"
  by (simp add: sample_tools_def sample_zip_def with_manifest_def under_meta_inf_def)

lemma zip_nothing_to_do:
  "sample_tools status (zip_cmd ''app-unsigned.apk'') (world without_manifest) =
     (Inr 12, [''app-unsigned.apk'' \<mapsto> [''classes.dex'']])"
  by (simp add: sample_tools_def sample_zip_def without_manifest_def under_meta_inf_def)

lemma jarsigner_refuses:
  "sample_tools 1 (jarsigner_cmd ''app-unsigned.apk'' ''app-signed.apk'' ''debug.keystore'')
       [''app-unsigned.apk'' \<mapsto> [''classes.dex'']] =
     (Inr 1, [''app-unsigned.apk'' \<mapsto> [''classes.dex''], ''app-signed.apk'' \<mapsto> []])"
  by (simp add: sample_tools_def sample_jarsigner_def)

lemma jarsigner_signs:
  "sample_tools 0 (jarsigner_cmd ''app-unsigned.apk'' ''app-signed.apk'' ''debug.keystore'')
       [''app-unsigned.apk'' \<mapsto> [''classes.dex'']] =
     (Inr 0, [''app-unsigned.apk'' \<mapsto> [''classes.dex''],
              ''app-signed.apk'' \<mapsto> [''META-INF/CERT.RSA'', ''classes.dex'']])"
  by (simp add: sample_tools_def sample_jarsigner_def)

lemma zip_cannot_start:
  "zip_missing (zip_cmd ''app-unsigned.apk'') (world with_manifest) =
     (Inl (Cannot_execute 2), world with_manifest)"
  by (simp add: zip_missing_def)

lemma fresh_trace: "trace with_manifest = []" "trace without_manifest = []"
  by (simp_all add: with_manifest_def without_manifest_def)

lemma failed_run:
  "sign (sample_tools 1) ''app-unsigned.apk'' ''app-signed.apk'' ''debug.keystore'' with_manifest =
     (Inl (CalledProcessError 1
             (jarsigner_cmd ''app-unsigned.apk'' ''app-signed.apk'' ''debug.keystore'')),
      \<lparr>trace =
         [banner,
          Diagnostic (zip_cmd ''app-unsigned.apk''),
          Popen (zip_cmd ''app-unsigned.apk''),
          Exited (zip_cmd ''app-unsigned.apk'') 0,
          Diagnostic (jarsigner_cmd ''app-unsigned.apk'' ''app-signed.apk'' ''debug.keystore''),
          Popen (jarsigner_cmd ''app-unsigned.apk'' ''app-signed.apk'' ''debug.keystore''),
          Exited (jarsigner_cmd ''app-unsigned.apk'' ''app-signed.apk'' ''debug.keystore'') 1],
       world = [''app-unsigned.apk'' \<mapsto> [''classes.dex''], ''app-signed.apk'' \<mapsto> []]\<rparr>)"
proof -
  from fresh_trace sign_jarsigner_nonzero [where run = "sample_tools 1" and st = with_manifest,
      OF zip_strips_manifest jarsigner_refuses]
  show ?thesis by simp
qed

lemma successful_run:
  "sign (sample_tools 0) ''app-unsigned.apk'' ''app-signed.apk'' ''debug.keystore''
       without_manifest =
     (Inr (),
      \<lparr>trace =
         [banner,
          Diagnostic (zip_cmd ''app-unsigned.apk''),
          Popen (zip_cmd ''app-unsigned.apk''),
          Exited (zip_cmd ''app-unsigned.apk'') 12,
          Diagnostic (jarsigner_cmd ''app-unsigned.apk'' ''app-signed.apk'' ''debug.keystore''),
          Popen (jarsigner_cmd ''app-unsigned.apk'' ''app-signed.apk'' ''debug.keystore''),
          Exited (jarsigner_cmd ''app-unsigned.apk'' ''app-signed.apk'' ''debug.keystore'') 0],
       world = [''app-unsigned.apk'' \<mapsto> [''classes.dex''],
                ''app-signed.apk'' \<mapsto> [''META-INF/CERT.RSA'', ''classes.dex'']]\<rparr>)"
proof -
  from fresh_trace sign_jarsigner_zero [where run = "sample_tools 0" and st = without_manifest,
      OF zip_nothing_to_do jarsigner_signs]
  show ?thesis by simp
qed

lemma run_without_zip:
  "sign zip_missing ''app-unsigned.apk'' ''app-signed.apk'' ''debug.keystore'' with_manifest =
     (Inl (OSError 2),
      \<lparr>trace =
         [banner,
          Diagnostic (zip_cmd ''app-unsigned.apk''),
          Popen (zip_cmd ''app-unsigned.apk'')],
       world = world with_manifest\<rparr>)"
proof -
  from fresh_trace sign_zip_not_started [where run = zip_missing and st = with_manifest,
      OF zip_cannot_start]
  show ?thesis by simp
qed

lemma zip_no_such_archive:
  "sample_tools status (zip_cmd []) (world with_manifest) = (Inr 12, world with_manifest)"
  by (simp add: sample_tools_def sample_zip_def with_manifest_def)

lemma jarsigner_refuses_empty_paths:
  "sample_tools 1 (jarsigner_cmd [] [] []) (world with_manifest) =
     (Inr 1, (world with_manifest)([] \<mapsto> []))"
  by (simp add: sample_tools_def sample_jarsigner_def)

lemma nul_path_starts_nothing:
  "strict_tools status (zip_cmd (CHR 0x00 # ''.apk'')) (world with_manifest) =
     (Inl Nul_in_argument, world with_manifest)"
  by (simp add: strict_tools_def)

lemma strict_zip_strips_manifest:
  "strict_tools status (zip_cmd ''app-unsigned.apk'') (world with_manifest) =
     (Inr 0, [''app-unsigned.apk'' \<mapsto> [''classes.dex'']])"
  by (simp add: strict_tools_def zip_strips_manifest)

lemma strict_jarsigner_signs:
  "strict_tools 0 (jarsigner_cmd ''app-unsigned.apk'' ''app-signed.apk'' ''debug.keystore'')
       [''app-unsigned.apk'' \<mapsto> [''classes.dex'']] =
     (Inr 0, [''app-unsigned.apk'' \<mapsto> [''classes.dex''],
              ''app-signed.apk'' \<mapsto> [''META-INF/CERT.RSA'', ''classes.dex'']])"
  by (simp add: strict_tools_def jarsigner_signs)

lemma run_with_nul_path:
  "sign (strict_tools 0) (CHR 0x00 # ''.apk'') ''app-signed.apk'' ''debug.keystore''
       with_manifest =
     (Inl TypeError,
      \<lparr>trace =
         [banner,
          Diagnostic (zip_cmd (CHR 0x00 # ''.apk'')),
          Popen (zip_cmd (CHR 0x00 # ''.apk''))],
       world = world with_manifest\<rparr>)"
proof -
  from fresh_trace sign_zip_not_started [where run = "strict_tools 0" and st = with_manifest,
      OF nul_path_starts_nothing]
  show ?thesis by simp
qed

lemma strict_successful_run:
  "fst (sign (strict_tools 0) ''app-unsigned.apk'' ''app-signed.apk'' ''debug.keystore''
          with_manifest) = Inr ()"
  by (simp add: sign_jarsigner_zero [where run = "strict_tools 0" and st = with_manifest,
        OF strict_zip_strips_manifest strict_jarsigner_signs])

subsection \<open>The shape of every run\<close>

text \<open>A run starts one child or two, and their argument vectors are always the same two.\<close>

lemma sign_invocations_shape:
  fixes st :: "'w state"
  shows "invocations (emitted st (sign run u s k st)) = [zip_cmd u] \<or>
         invocations (emitted st (sign run u s k st)) = [zip_cmd u, jarsigner_cmd u s k]"
proof (cases rule: sign_cases [where run = run and u = u and s = s and k = k and st = st])
  case (zip_not_started failure w1)
  then show ?thesis by (simp add: emitted_def)
next
  case (jarsigner_not_started rc1 w1 failure w2)
  then show ?thesis by (simp add: emitted_def)
next
  case (jarsigner_nonzero rc1 w1 rc2 w2)
  then show ?thesis by (simp add: emitted_def)
next
  case (jarsigner_zero rc1 w1 w2)
  then show ?thesis by (simp add: emitted_def)
qed

text \<open>
  In a trace of the shape \<^verbatim>\<open>sign\<close> produces, whatever is found at the position of a
  process start, the position before it holds the diagnostic text for the same command.
\<close>

lemma announced_upto_7:
  assumes "i < length es" and "es ! i = Popen argv"
    and "es = [e0, Diagnostic c1, Popen c1] @ rest"
    and "rest = [] \<or> rest = [Exited c1 r1, Diagnostic c2, Popen c2]
         \<or> rest = [Exited c1 r1, Diagnostic c2, Popen c2, Exited c2 r2]"
    and "\<forall>a. e0 \<noteq> Popen a"
  shows "0 < i \<and> es ! (i - 1) = Diagnostic argv"
proof -
  from assms(1,3,4) have "i < 7" by auto
  then consider "i = 0" | "i = 1" | "i = 2" | "i = 3" | "i = 4" | "i = 5" | "i = 6"
    by linarith
  then show ?thesis
  proof cases
    case 1 with assms show ?thesis by auto
  next
    case 2 with assms show ?thesis by auto
  next
    case 3 with assms show ?thesis by auto
  next
    case 4 with assms show ?thesis by auto
  next
    case 5 with assms show ?thesis by auto
  next
    case 6 with assms show ?thesis by auto
  next
    case 7 with assms show ?thesis by auto
  qed
qed

section \<open>Properties of \<^verbatim>\<open>sign\<close>\<close>

subsection \<open>Failure of the signing step\<close>

text \<open>
  C1. Whenever the run of \<^verbatim>\<open>sign\<close> sees the signing tool exit with a non-zero status,
  \<^verbatim>\<open>sign\<close> does not return normally: its outcome is an exception, never success. The
  operating system is arbitrary, so this holds whatever the tool left of the output file.
\<close>

theorem sign_raises_when_jarsigner_fails:
  fixes st :: "'w state"
  assumes "Exited (jarsigner_cmd u s k) rc \<in> set (emitted st (sign run u s k st))"
    and "rc \<noteq> 0"
  shows "fst (sign run u s k st) \<noteq> Inr () \<and> (\<exists>e. fst (sign run u s k st) = Inl e)"
proof (cases rule: sign_cases [where run = run and u = u and s = s and k = k and st = st])
  case (zip_not_started failure w1)
  then show ?thesis by simp
next
  case (jarsigner_not_started rc1 w1 failure w2)
  then show ?thesis by simp
next
  case (jarsigner_nonzero rc1 w1 rc2 w2)
  then show ?thesis by simp
next
  case (jarsigner_zero rc1 w1 w2)
  with assms show ?thesis by (simp add: emitted_def)
qed

theorem sign_raises_when_jarsigner_fails_witness:
  "Exited (jarsigner_cmd ''app-unsigned.apk'' ''app-signed.apk'' ''debug.keystore'') 1
     \<in> set (emitted with_manifest
              (sign (sample_tools 1) ''app-unsigned.apk'' ''app-signed.apk'' ''debug.keystore''
                 with_manifest))
   \<and> (1::int) \<noteq> 0
   \<and> fst (sign (sample_tools 1) ''app-unsigned.apk'' ''app-signed.apk'' ''debug.keystore''
            with_manifest) \<noteq> Inr ()
   \<and> (\<exists>e. fst (sign (sample_tools 1) ''app-unsigned.apk'' ''app-signed.apk'' ''debug.keystore''
                 with_manifest) = Inl e)
   \<and> world (snd (sign (sample_tools 1) ''app-unsigned.apk'' ''app-signed.apk''
                    ''debug.keystore'' with_manifest)) ''app-signed.apk'' = Some []"
proof -
  have h: "Exited (jarsigner_cmd ''app-unsigned.apk'' ''app-signed.apk'' ''debug.keystore'') 1
     \<in> set (emitted with_manifest
              (sign (sample_tools 1) ''app-unsigned.apk'' ''app-signed.apk'' ''debug.keystore''
                 with_manifest))"
    by (simp add: failed_run emitted_def fresh_trace)
  have w: "world (snd (sign (sample_tools 1) ''app-unsigned.apk'' ''app-signed.apk''
                    ''debug.keystore'' with_manifest)) ''app-signed.apk'' = Some []"
    by (simp add: failed_run)
  from h w sign_raises_when_jarsigner_fails [OF h] show ?thesis
    by simp
qed

subsection \<open>Failure of the archive step\<close>

text \<open>
  C2. When the archive tool exits with a non-zero status, \<^verbatim>\<open>sign\<close> drops that status and
  goes on to start the signing tool; the call succeeds exactly when the signing tool,
  run in the world the archive tool left, exits with status 0.
\<close>

theorem sign_ignores_zip_status:
  fixes st :: "'w state"
  assumes "run (zip_cmd u) (world st) = (Inr rc1, w1)" and "rc1 \<noteq> 0"
  shows "Popen (jarsigner_cmd u s k) \<in> set (emitted st (sign run u s k st)) \<and>
         (fst (sign run u s k st) = Inr ()) = (fst (run (jarsigner_cmd u s k) w1) = Inr 0)"
proof (cases rule: sign_cases [where run = run and u = u and s = s and k = k and st = st])
  case (zip_not_started failure w1)
  with assms show ?thesis by simp
next
  case (jarsigner_not_started rc1 w1 failure w2)
  with assms show ?thesis by (simp add: emitted_def)
next
  case (jarsigner_nonzero rc1 w1 rc2 w2)
  with assms show ?thesis by (simp add: emitted_def)
next
  case (jarsigner_zero rc1 w1 w2)
  with assms show ?thesis by (simp add: emitted_def)
qed

theorem sign_ignores_zip_status_witness:
  "sample_tools 0 (zip_cmd ''app-unsigned.apk'') (world without_manifest) =
     (Inr 12, [''app-unsigned.apk'' \<mapsto> [''classes.dex'']])
   \<and> (12::int) \<noteq> 0
   \<and> Popen (jarsigner_cmd ''app-unsigned.apk'' ''app-signed.apk'' ''debug.keystore'')
       \<in> set (emitted without_manifest
                (sign (sample_tools 0) ''app-unsigned.apk'' ''app-signed.apk''
                   ''debug.keystore'' without_manifest))
   \<and> fst (sample_tools 0
             (jarsigner_cmd ''app-unsigned.apk'' ''app-signed.apk'' ''debug.keystore'')
             [''app-unsigned.apk'' \<mapsto> [''classes.dex'']]) = Inr 0
   \<and> fst (sign (sample_tools 0) ''app-unsigned.apk'' ''app-signed.apk'' ''debug.keystore''
            without_manifest) = Inr ()"
proof -
  have nz: "(12::int) \<noteq> 0" by simp
  have j: "fst (sample_tools 0
             (jarsigner_cmd ''app-unsigned.apk'' ''app-signed.apk'' ''debug.keystore'')
             [''app-unsigned.apk'' \<mapsto> [''classes.dex'']]) = Inr 0"
    by (simp add: jarsigner_signs)
  from sign_ignores_zip_status [where run = "sample_tools 0" and st = without_manifest
      and s = "''app-signed.apk''" and k = "''debug.keystore''", OF zip_nothing_to_do nz]
    zip_nothing_to_do [of 0] j
  show ?thesis by simp
qed

subsection \<open>What the error carries\<close>

text \<open>
  C7. When \<^verbatim>\<open>sign\<close> fails because the signing tool exited with a non-zero status, the
  exception it raises is \<^verbatim>\<open>CalledProcessError\<close> holding that exit status and the argument
  vector of the failed command.
\<close>

theorem sign_error_carries_command_and_status:
  fixes st :: "'w state"
  assumes "run [''zip'', ''-d'', u, ''META-INF/*''] (world st) = (Inr rc1, w1)"
    and "run [''jarsigner'', ''-sigalg'', ''SHA1withRSA'', ''-digestalg'', ''SHA1'',
              ''-keystore'', k, ''-storepass'', ''android'', ''-signedjar'', s, u,
              ''androiddebugkey''] w1 = (Inr rc2, w2)"
    and "rc2 \<noteq> 0"
  shows "fst (sign run u s k st) =
           Inl (CalledProcessError rc2
                  [''jarsigner'', ''-sigalg'', ''SHA1withRSA'', ''-digestalg'', ''SHA1'',
                   ''-keystore'', k, ''-storepass'', ''android'', ''-signedjar'', s, u,
                   ''androiddebugkey''])"
  by (simp add: sign_jarsigner_nonzero [where run = run and st = st, OF assms])

theorem sign_error_carries_command_and_status_witness:
  "sample_tools 1 [''zip'', ''-d'', ''app-unsigned.apk'', ''META-INF/*''] (world with_manifest) =
     (Inr 0, [''app-unsigned.apk'' \<mapsto> [''classes.dex'']])
   \<and> sample_tools 1
        [''jarsigner'', ''-sigalg'', ''SHA1withRSA'', ''-digestalg'', ''SHA1'',
         ''-keystore'', ''debug.keystore'', ''-storepass'', ''android'',
         ''-signedjar'', ''app-signed.apk'', ''app-unsigned.apk'', ''androiddebugkey'']
        [''app-unsigned.apk'' \<mapsto> [''classes.dex'']] =
     (Inr 1, [''app-unsigned.apk'' \<mapsto> [''classes.dex''], ''app-signed.apk'' \<mapsto> []])
   \<and> (1::int) \<noteq> 0
   \<and> fst (sign (sample_tools 1) ''app-unsigned.apk'' ''app-signed.apk'' ''debug.keystore''
            with_manifest) =
       Inl (CalledProcessError 1
              [''jarsigner'', ''-sigalg'', ''SHA1withRSA'', ''-digestalg'', ''SHA1'',
               ''-keystore'', ''debug.keystore'', ''-storepass'', ''android'',
               ''-signedjar'', ''app-signed.apk'', ''app-unsigned.apk'', ''androiddebugkey''])"
proof -
  have nz: "(1::int) \<noteq> 0" by simp
  from sign_error_carries_command_and_status [where run = "sample_tools 1"
      and st = with_manifest, OF zip_strips_manifest jarsigner_refuses nz]
    zip_strips_manifest [of 1] jarsigner_refuses nz
  show ?thesis by (intro conjI)
qed

subsection \<open>The command lines\<close>

text \<open>
  C3. The invocations after the first one: none when \<^verbatim>\<open>zip\<close> could not be started;
  otherwise exactly one, and its argument vector is
  \<^verbatim>\<open>jarsigner -sigalg SHA1withRSA -digestalg SHA1 -keystore <keystore> -storepass android
  -signedjar <signed_apk> <unsigned_apk> androiddebugkey\<close>. Only the three path positions
  come from the caller; algorithm, digest, password and alias are literals, the same for
  every run, environment and argument.
\<close>

theorem sign_jarsigner_argv:
  fixes st :: "'w state"
  shows "drop 1 (invocations (emitted st (sign run u s k st))) =
     (if isl (fst (run [''zip'', ''-d'', u, ''META-INF/*''] (world st))) then []
      else [[''jarsigner'',
             ''-sigalg'', ''SHA1withRSA'',
             ''-digestalg'', ''SHA1'',
             ''-keystore'', k,
             ''-storepass'', ''android'',
             ''-signedjar'', s,
             u,
             ''androiddebugkey'']])"
proof (cases rule: sign_cases [where run = run and u = u and s = s and k = k and st = st])
  case (zip_not_started failure w1)
  then show ?thesis by (simp add: emitted_def)
next
  case (jarsigner_not_started rc1 w1 failure w2)
  then show ?thesis by (simp add: emitted_def)
next
  case (jarsigner_nonzero rc1 w1 rc2 w2)
  then show ?thesis by (simp add: emitted_def)
next
  case (jarsigner_zero rc1 w1 w2)
  then show ?thesis by (simp add: emitted_def)
qed

theorem sign_jarsigner_argv_witness:
  "drop 1 (invocations (emitted without_manifest
       (sign (sample_tools 0) ''app-unsigned.apk'' ''app-signed.apk'' ''debug.keystore''
          without_manifest))) =
     [[''jarsigner'', ''-sigalg'', ''SHA1withRSA'', ''-digestalg'', ''SHA1'',
       ''-keystore'', ''debug.keystore'', ''-storepass'', ''android'',
       ''-signedjar'', ''app-signed.apk'', ''app-unsigned.apk'', ''androiddebugkey'']]"
  using sign_jarsigner_argv [where run = "sample_tools 0" and st = without_manifest
      and u = "''app-unsigned.apk''" and s = "''app-signed.apk''" and k = "''debug.keystore''"]
  by (simp add: zip_nothing_to_do)

text \<open>
  C4. The first invocation of every run is \<^verbatim>\<open>zip -d <unsigned_apk> META-INF/*\<close>: the
  archive it names is the unsigned package itself, and the only entry pattern is the
  fixed \<^verbatim>\<open>META-INF/*\<close>. It is the third event of the run, after the banner and the
  diagnostic text.
\<close>

theorem sign_zip_argv:
  fixes st :: "'w state"
  shows "take 1 (invocations (emitted st (sign run u s k st))) =
           [[''zip'', ''-d'', u, ''META-INF/*'']]
         \<and> take 3 (emitted st (sign run u s k st)) =
           [Stdout ''Signing (ignore the warnings)'',
            Diagnostic [''zip'', ''-d'', u, ''META-INF/*''],
            Popen [''zip'', ''-d'', u, ''META-INF/*'']]"
proof (cases rule: sign_cases [where run = run and u = u and s = s and k = k and st = st])
  case (zip_not_started failure w1)
  then show ?thesis by (simp add: emitted_def)
next
  case (jarsigner_not_started rc1 w1 failure w2)
  then show ?thesis by (simp add: emitted_def)
next
  case (jarsigner_nonzero rc1 w1 rc2 w2)
  then show ?thesis by (simp add: emitted_def)
next
  case (jarsigner_zero rc1 w1 w2)
  then show ?thesis by (simp add: emitted_def)
qed

theorem sign_zip_argv_witness:
  "take 1 (invocations (emitted with_manifest
       (sign (sample_tools 1) ''app-unsigned.apk'' ''app-signed.apk'' ''debug.keystore''
          with_manifest))) =
     [[''zip'', ''-d'', ''app-unsigned.apk'', ''META-INF/*'']]"
  using sign_zip_argv [where run = "sample_tools 1" and st = with_manifest
      and u = "''app-unsigned.apk''" and s = "''app-signed.apk''" and k = "''debug.keystore''"]
  by simp

text \<open>
  C10. Two runs of \<^verbatim>\<open>sign\<close> on equal arguments, under any two operating systems, worlds
  (even of different types) and start states, build the same command lines: wherever both
  runs reach their \<open>i\<close>-th invocation, the two argument vectors are equal.
\<close>

theorem sign_command_lines_deterministic:
  fixes st :: "'w state" and st' :: "'v state"
  shows "\<forall>i. i < length (invocations (emitted st (sign run u s k st))) \<and>
              i < length (invocations (emitted st' (sign run' u s k st'))) \<longrightarrow>
           invocations (emitted st (sign run u s k st)) ! i =
           invocations (emitted st' (sign run' u s k st')) ! i"
proof (intro allI impI, elim conjE)
  fix i
  let ?a = "invocations (emitted st (sign run u s k st))"
  let ?b = "invocations (emitted st' (sign run' u s k st'))"
  assume a: "i < length ?a" and b: "i < length ?b"
  have sa: "?a = [zip_cmd u] \<or> ?a = [zip_cmd u, jarsigner_cmd u s k]"
    by (rule sign_invocations_shape)
  have sb: "?b = [zip_cmd u] \<or> ?b = [zip_cmd u, jarsigner_cmd u s k]"
    by (rule sign_invocations_shape)
  from a sa have "?a ! i = [zip_cmd u, jarsigner_cmd u s k] ! i"
    by (auto simp: less_Suc_eq)
  moreover from b sb have "?b ! i = [zip_cmd u, jarsigner_cmd u s k] ! i"
    by (auto simp: less_Suc_eq)
  ultimately show "?a ! i = ?b ! i" by simp
qed

theorem sign_command_lines_deterministic_witness:
  "1 < length (invocations (emitted with_manifest
         (sign (sample_tools 1) ''app-unsigned.apk'' ''app-signed.apk'' ''debug.keystore''
            with_manifest)))
   \<and> 1 < length (invocations (emitted without_manifest
         (sign (sample_tools 0) ''app-unsigned.apk'' ''app-signed.apk'' ''debug.keystore''
            without_manifest)))
   \<and> invocations (emitted with_manifest
         (sign (sample_tools 1) ''app-unsigned.apk'' ''app-signed.apk'' ''debug.keystore''
            with_manifest)) ! 1 =
       invocations (emitted without_manifest
         (sign (sample_tools 0) ''app-unsigned.apk'' ''app-signed.apk'' ''debug.keystore''
            without_manifest)) ! 1"
proof -
  have a: "1 < length (invocations (emitted with_manifest
         (sign (sample_tools 1) ''app-unsigned.apk'' ''app-signed.apk'' ''debug.keystore''
            with_manifest)))"
    by (simp add: failed_run emitted_def fresh_trace)
  have b: "1 < length (invocations (emitted without_manifest
         (sign (sample_tools 0) ''app-unsigned.apk'' ''app-signed.apk'' ''debug.keystore''
            without_manifest)))"
    by (simp add: successful_run emitted_def fresh_trace)
  from sign_command_lines_deterministic [where run = "sample_tools 1" and st = with_manifest
      and run' = "sample_tools 0" and st' = without_manifest
      and u = "''app-unsigned.apk''" and s = "''app-signed.apk''" and k = "''debug.keystore''",
      rule_format, of 1, OF conjI, OF a b] a b
  show ?thesis by (intro conjI)
qed

subsection \<open>Order of the effects\<close>

text \<open>
  C5, as stated, fails: ``on every run exactly two external processes are spawned''. On a
  machine without \<^verbatim>\<open>zip\<close>, \<^verbatim>\<open>subprocess.call\<close> raises \<^verbatim>\<open>OSError\<close>, which \<^verbatim>\<open>sign\<close> does
  not catch: the run makes one invocation, not two, and the signing tool is never started.
\<close>

theorem sign_zip_missing_counterexample:
  "invocations (emitted with_manifest
       (sign zip_missing ''app-unsigned.apk'' ''app-signed.apk'' ''debug.keystore''
          with_manifest)) =
     [[''zip'', ''-d'', ''app-unsigned.apk'', ''META-INF/*'']]
   \<and> length (invocations (emitted with_manifest
         (sign zip_missing ''app-unsigned.apk'' ''app-signed.apk'' ''debug.keystore''
            with_manifest))) \<noteq> 2
   \<and> fst (sign zip_missing ''app-unsigned.apk'' ''app-signed.apk'' ''debug.keystore''
            with_manifest) = Inl (OSError 2)"
  by (simp add: run_without_zip emitted_def fresh_trace)

text \<open>
  C5, amended. When the archive tool can be started, the run makes exactly two
  invocations, in order: the archive tool is started and has exited before the diagnostic
  text and the start of the signing tool. When the archive tool cannot be started, the run
  makes that one attempt only and \<^verbatim>\<open>sign\<close> raises the exception of \<^verbatim>\<open>Popen\<close> (\<^verbatim>\<open>OSError\<close>,
  or \<^verbatim>\<open>TypeError\<close> for a NUL character in an argument). In no run is the signing tool
  started before the archive tool.
\<close>

theorem sign_invocation_order:
  fixes st :: "'w state"
  shows "(case fst (run (zip_cmd u) (world st)) of
            Inl failure \<Rightarrow>
              emitted st (sign run u s k st) =
                [banner, Diagnostic (zip_cmd u), Popen (zip_cmd u)]
              \<and> invocations (emitted st (sign run u s k st)) = [zip_cmd u]
              \<and> fst (sign run u s k st) = Inl (Popen_raises failure)
          | Inr rc1 \<Rightarrow>
              take 6 (emitted st (sign run u s k st)) =
                [banner, Diagnostic (zip_cmd u), Popen (zip_cmd u), Exited (zip_cmd u) rc1,
                 Diagnostic (jarsigner_cmd u s k), Popen (jarsigner_cmd u s k)]
              \<and> invocations (emitted st (sign run u s k st)) =
                [zip_cmd u, jarsigner_cmd u s k])"
proof (cases rule: sign_cases [where run = run and u = u and s = s and k = k and st = st])
  case (zip_not_started failure w1)
  then show ?thesis by (simp add: emitted_def)
next
  case (jarsigner_not_started rc1 w1 failure w2)
  then show ?thesis by (simp add: emitted_def)
next
  case (jarsigner_nonzero rc1 w1 rc2 w2)
  then show ?thesis by (simp add: emitted_def)
next
  case (jarsigner_zero rc1 w1 w2)
  then show ?thesis by (simp add: emitted_def)
qed

theorem sign_invocation_order_witness:
  "invocations (emitted with_manifest
       (sign (sample_tools 1) ''app-unsigned.apk'' ''app-signed.apk'' ''debug.keystore''
          with_manifest)) =
     [zip_cmd ''app-unsigned.apk'',
      jarsigner_cmd ''app-unsigned.apk'' ''app-signed.apk'' ''debug.keystore'']
   \<and> invocations (emitted with_manifest
       (sign zip_missing ''app-unsigned.apk'' ''app-signed.apk'' ''debug.keystore''
          with_manifest)) =
     [zip_cmd ''app-unsigned.apk'']"
  using sign_invocation_order [where run = "sample_tools 1" and st = with_manifest
      and u = "''app-unsigned.apk''" and s = "''app-signed.apk''" and k = "''debug.keystore''"]
    sign_invocation_order [where run = zip_missing and st = with_manifest
      and u = "''app-unsigned.apk''" and s = "''app-signed.apk''" and k = "''debug.keystore''"]
  by (simp add: zip_strips_manifest zip_cannot_start)

text \<open>
  C6. In every run, each start of a child process is immediately preceded by the
  diagnostic text that describes the same argument vector.
\<close>

theorem sign_announces_each_invocation:
  fixes st :: "'w state"
  shows "\<forall>i argv. i < length (emitted st (sign run u s k st)) \<and>
                   emitted st (sign run u s k st) ! i = Popen argv \<longrightarrow>
           0 < i \<and> emitted st (sign run u s k st) ! (i - 1) = Diagnostic argv"
proof (intro allI impI, elim conjE)
  fix i argv
  let ?es = "emitted st (sign run u s k st)"
  assume i: "i < length ?es" and p: "?es ! i = Popen argv"
  show "0 < i \<and> ?es ! (i - 1) = Diagnostic argv"
  proof (cases rule: sign_cases [where run = run and u = u and s = s and k = k and st = st])
    case (zip_not_started failure w1)
    then have "?es = [banner, Diagnostic (zip_cmd u), Popen (zip_cmd u)] @ []"
      by (simp add: emitted_def)
    from announced_upto_7 [OF i p this] show ?thesis by simp
  next
    case (jarsigner_not_started rc1 w1 failure w2)
    then have "?es = [banner, Diagnostic (zip_cmd u), Popen (zip_cmd u)] @
        [Exited (zip_cmd u) rc1, Diagnostic (jarsigner_cmd u s k), Popen (jarsigner_cmd u s k)]"
      by (simp add: emitted_def)
    from announced_upto_7 [OF i p this] show ?thesis by simp
  next
    case (jarsigner_nonzero rc1 w1 rc2 w2)
    then have "?es = [banner, Diagnostic (zip_cmd u), Popen (zip_cmd u)] @
        [Exited (zip_cmd u) rc1, Diagnostic (jarsigner_cmd u s k), Popen (jarsigner_cmd u s k),
         Exited (jarsigner_cmd u s k) rc2]"
      by (simp add: emitted_def)
    from announced_upto_7 [OF i p this] show ?thesis by simp
  next
    case (jarsigner_zero rc1 w1 w2)
    then have "?es = [banner, Diagnostic (zip_cmd u), Popen (zip_cmd u)] @
        [Exited (zip_cmd u) rc1, Diagnostic (jarsigner_cmd u s k), Popen (jarsigner_cmd u s k),
         Exited (jarsigner_cmd u s k) 0]"
      by (simp add: emitted_def)
    from announced_upto_7 [OF i p this] show ?thesis by simp
  qed
qed

theorem sign_announces_each_invocation_witness:
  "5 < length (emitted with_manifest
         (sign (sample_tools 1) ''app-unsigned.apk'' ''app-signed.apk'' ''debug.keystore''
            with_manifest))
   \<and> emitted with_manifest
         (sign (sample_tools 1) ''app-unsigned.apk'' ''app-signed.apk'' ''debug.keystore''
            with_manifest) ! 5 =
       Popen (jarsigner_cmd ''app-unsigned.apk'' ''app-signed.apk'' ''debug.keystore'')
   \<and> (0::nat) < 5
   \<and> emitted with_manifest
         (sign (sample_tools 1) ''app-unsigned.apk'' ''app-signed.apk'' ''debug.keystore''
            with_manifest) ! (5 - 1) =
       Diagnostic (jarsigner_cmd ''app-unsigned.apk'' ''app-signed.apk'' ''debug.keystore'')"
proof -
  let ?es = "emitted with_manifest
         (sign (sample_tools 1) ''app-unsigned.apk'' ''app-signed.apk'' ''debug.keystore''
            with_manifest)"
  have l: "5 < length ?es"
    by (simp add: failed_run emitted_def fresh_trace)
  have p: "?es ! 5 =
      Popen (jarsigner_cmd ''app-unsigned.apk'' ''app-signed.apk'' ''debug.keystore'')"
    by (simp add: failed_run emitted_def fresh_trace)
  from sign_announces_each_invocation [where run = "sample_tools 1" and st = with_manifest
      and u = "''app-unsigned.apk''" and s = "''app-signed.apk''" and k = "''debug.keystore''",
      rule_format, of 5, OF conjI, OF l p] l p
  show ?thesis by (intro conjI) simp_all
qed

subsection \<open>No recovery, no validation\<close>

text \<open>
  C8. When the archive tool has run and the signing step fails (the tool exits with a
  non-zero status or cannot be started), \<^verbatim>\<open>sign\<close> raises, and the run consists of the two
  invocations and nothing more: the signing tool is started once, nothing is run after its
  failure, and the world \<^verbatim>\<open>sign\<close> leaves is the very world the failed signing tool left
  of the one the archive tool produced. In the sample run the unsigned archive has lost
  its manifest and stays so.
\<close>

theorem sign_no_retry_no_rollback:
  fixes st :: "'w state"
  assumes "run (zip_cmd u) (world st) = (Inr rc1, w1)"
    and "run (jarsigner_cmd u s k) w1 = (r2, w2)"
    and "r2 \<noteq> Inr 0"
  shows "(\<exists>e. fst (sign run u s k st) = Inl e)
     \<and> emitted st (sign run u s k st) =
         [banner, Diagnostic (zip_cmd u), Popen (zip_cmd u), Exited (zip_cmd u) rc1,
          Diagnostic (jarsigner_cmd u s k), Popen (jarsigner_cmd u s k)] @
         (case r2 of Inl failure \<Rightarrow> [] | Inr rc2 \<Rightarrow> [Exited (jarsigner_cmd u s k) rc2])
     \<and> invocations (emitted st (sign run u s k st)) = [zip_cmd u, jarsigner_cmd u s k]
     \<and> world (snd (sign run u s k st)) = w2"
proof (cases r2)
  case (Inl failure)
  with assms(2) have j: "run (jarsigner_cmd u s k) w1 = (Inl failure, w2)" by simp
  show ?thesis
    by (simp add: sign_jarsigner_not_started [where run = run and st = st, OF assms(1) j]
          emitted_def Inl)
next
  case (Inr rc2)
  with assms(2) have j: "run (jarsigner_cmd u s k) w1 = (Inr rc2, w2)" by simp
  from Inr assms(3) have nz: "rc2 \<noteq> 0" by simp
  show ?thesis
    by (simp add: sign_jarsigner_nonzero [where run = run and st = st, OF assms(1) j nz]
          emitted_def Inr)
qed

theorem sign_no_retry_no_rollback_witness:
  "sample_tools 1 (zip_cmd ''app-unsigned.apk'') (world with_manifest) =
     (Inr 0, [''app-unsigned.apk'' \<mapsto> [''classes.dex'']])
   \<and> sample_tools 1
        (jarsigner_cmd ''app-unsigned.apk'' ''app-signed.apk'' ''debug.keystore'')
        [''app-unsigned.apk'' \<mapsto> [''classes.dex'']] =
     (Inr 1, [''app-unsigned.apk'' \<mapsto> [''classes.dex''], ''app-signed.apk'' \<mapsto> []])
   \<and> (Inr 1 :: launch_failure + int) \<noteq> Inr 0
   \<and> world with_manifest ''app-unsigned.apk'' = Some [''META-INF/MANIFEST.MF'', ''classes.dex'']
   \<and> (\<exists>e. fst (sign (sample_tools 1) ''app-unsigned.apk'' ''app-signed.apk''
                 ''debug.keystore'' with_manifest) = Inl e)
   \<and> invocations (emitted with_manifest
         (sign (sample_tools 1) ''app-unsigned.apk'' ''app-signed.apk'' ''debug.keystore''
            with_manifest)) =
       [zip_cmd ''app-unsigned.apk'',
        jarsigner_cmd ''app-unsigned.apk'' ''app-signed.apk'' ''debug.keystore'']
   \<and> world (snd (sign (sample_tools 1) ''app-unsigned.apk'' ''app-signed.apk''
                    ''debug.keystore'' with_manifest)) ''app-unsigned.apk'' =
       Some [''classes.dex'']"
proof -
  have nz: "(Inr 1 :: launch_failure + int) \<noteq> Inr 0" by simp
  have before: "world with_manifest ''app-unsigned.apk'' =
      Some [''META-INF/MANIFEST.MF'', ''classes.dex'']"
    by (simp add: with_manifest_def)
  from sign_no_retry_no_rollback [where run = "sample_tools 1" and st = with_manifest,
      OF zip_strips_manifest jarsigner_refuses nz]
    zip_strips_manifest [of 1] jarsigner_refuses nz before
  show ?thesis by simp
qed

text \<open>
  C9, as stated, fails: ``the only way a bad path can surface is through the exit status of
  one of the two external invocations''. A path that holds a NUL character never reaches a
  tool: \<^verbatim>\<open>Popen\<close> raises \<^verbatim>\<open>TypeError\<close> for the \<^verbatim>\<open>zip\<close> command, \<^verbatim>\<open>sign\<close> does not catch it,
  and the run ends without any exit status, while on the same machine the call with sound
  paths succeeds.
\<close>

theorem sign_nul_path_counterexample:
  "fst (sign (strict_tools 0) (CHR 0x00 # ''.apk'') ''app-signed.apk'' ''debug.keystore''
          with_manifest) = Inl TypeError
   \<and> emitted with_manifest
         (sign (strict_tools 0) (CHR 0x00 # ''.apk'') ''app-signed.apk'' ''debug.keystore''
            with_manifest) =
       [Stdout ''Signing (ignore the warnings)'',
        Diagnostic [''zip'', ''-d'', CHR 0x00 # ''.apk'', ''META-INF/*''],
        Popen [''zip'', ''-d'', CHR 0x00 # ''.apk'', ''META-INF/*'']]
   \<and> fst (sign (strict_tools 0) ''app-unsigned.apk'' ''app-signed.apk'' ''debug.keystore''
            with_manifest) = Inr ()"
  by (simp add: run_with_nul_path strict_successful_run emitted_def fresh_trace)

text \<open>
  C9, amended. \<^verbatim>\<open>sign\<close> validates nothing itself: for all arguments, the empty string
  included, the first three events of a run are the banner, the diagnostic text and the
  start of \<^verbatim>\<open>zip\<close>. A bad path can surface only through the outcome of one of the two
  invocations: the exception \<^verbatim>\<open>Popen\<close> raises when the tool cannot be started with these
  arguments (\<^verbatim>\<open>OSError\<close>, or \<^verbatim>\<open>TypeError\<close> for a NUL character), or the non-zero exit
  status of the signing tool. The value of \<^verbatim>\<open>sign\<close> is a function of these outcomes and
  of nothing else; the exit status of the archive tool plays no part in it.
\<close>

theorem sign_outcome_decided_by_tools:
  fixes st :: "'w state"
  shows "take 3 (emitted st (sign run u s k st)) =
           [banner, Diagnostic (zip_cmd u), Popen (zip_cmd u)]
     \<and> fst (sign run u s k st) =
         (case fst (run (zip_cmd u) (world st)) of
            Inl failure \<Rightarrow> Inl (Popen_raises failure)
          | Inr rc1 \<Rightarrow>
              (case fst (run (jarsigner_cmd u s k) (snd (run (zip_cmd u) (world st)))) of
                 Inl failure \<Rightarrow> Inl (Popen_raises failure)
               | Inr rc2 \<Rightarrow>
                   if rc2 = 0 then Inr ()
                   else Inl (CalledProcessError rc2 (jarsigner_cmd u s k))))"
proof (cases rule: sign_cases [where run = run and u = u and s = s and k = k and st = st])
  case (zip_not_started failure w1)
  then show ?thesis by (simp add: emitted_def)
next
  case (jarsigner_not_started rc1 w1 failure w2)
  then show ?thesis by (simp add: emitted_def)
next
  case (jarsigner_nonzero rc1 w1 rc2 w2)
  then show ?thesis by (simp add: emitted_def)
next
  case (jarsigner_zero rc1 w1 w2)
  then show ?thesis by (simp add: emitted_def)
qed

theorem sign_outcome_decided_by_tools_witness:
  "take 3 (emitted with_manifest (sign (sample_tools 1) [] [] [] with_manifest)) =
     [banner, Diagnostic (zip_cmd []), Popen (zip_cmd [])]
   \<and> fst (sign (sample_tools 1) [] [] [] with_manifest) =
       Inl (CalledProcessError 1 (jarsigner_cmd [] [] []))
   \<and> fst (sign (strict_tools 0) (CHR 0x00 # ''.apk'') ''app-signed.apk'' ''debug.keystore''
            with_manifest) = Inl TypeError"
  using sign_outcome_decided_by_tools [where run = "sample_tools 1" and st = with_manifest
      and u = "[]" and s = "[]" and k = "[]"]
    sign_outcome_decided_by_tools [where run = "strict_tools 0" and st = with_manifest
      and u = "CHR 0x00 # ''.apk''" and s = "''app-signed.apk''" and k = "''debug.keystore''"]
  by (simp add: zip_no_such_archive jarsigner_refuses_empty_paths nul_path_starts_nothing)

end
